theory Spec2Isabelle
  imports Main
begin

section \<open>The asynchronous FileMaker client: errors, effects and the trace\<close>

text \<open>
  The module \<^verbatim>\<open>fmrest/server_async.py\<close> raises and catches three kinds of exception:
  \<^verbatim>\<open>FileMakerError\<close> (the remote application error, classified by \<^verbatim>\<open>str(e)\<close>),
  \<^verbatim>\<open>BadJSON\<close> (built from the decode failure and the raw body) and whatever the transport
  raises. \<^verbatim>\<open>time.sleep\<close> adds \<^verbatim>\<open>ValueError\<close> for a negative argument. The classes come
  from \<^verbatim>\<open>fmrest/exceptions.py\<close>; here \<^verbatim>\<open>FileMakerError\<close> carries the text that \<^verbatim>\<open>str(e)\<close>
  yields, which is all the module reads of it.
\<close>

datatype json_decode_error = JSONDecodeError string nat

datatype error =
    FileMakerError string
  | BadJSON json_decode_error string
  | TransportError string
  | ValueError string

fun is_FileMakerError :: "error \<Rightarrow> bool" where
  "is_FileMakerError (FileMakerError m) = True"
| "is_FileMakerError e = False"

text \<open>
  What the program does to the outside is recorded in a trace: one \<open>InnerCall\<close> for every
  execution of the wrapped coroutine function, one \<open>Sleep d\<close> for every completed
  \<^verbatim>\<open>time.sleep\<close> (\<open>d\<close> in microseconds), one \<open>Relogin\<close> for every re-authentication cycle.
\<close>

datatype event = InnerCall | Sleep int | Relogin

record 'w sys =
  world :: 'w
  trace :: "event list"

text \<open>
  What an \<^verbatim>\<open>await\<close> of one of the module's coroutines evaluates to: a value of the
  operation's result type, a coroutine object that was created and never awaited, or
  \<^verbatim>\<open>None\<close> when a function body runs off its end.
\<close>

datatype 'a returned = Value 'a | Coroutine | PyNone

type_synonym ('w, 'a) action = "'w sys \<Rightarrow> (error + 'a) \<times> 'w sys"

text \<open>
  \<open>call body\<close> is one awaited execution of a coroutine function whose body acts on the
  world as \<open>body\<close> does: it returns a value or raises, and may change the world.
\<close>

definition call :: "('w \<Rightarrow> (error + 'a) \<times> 'w) \<Rightarrow> ('w, 'a) action" where
  "call body s =
     (case body (world s) of
        (r, w') \<Rightarrow> (r, s\<lparr>world := w', trace := trace s @ [InnerCall]\<rparr>))"

text \<open>\<^verbatim>\<open>time.sleep(seconds)\<close>: a negative length raises \<^verbatim>\<open>ValueError\<close>.\<close>

definition time_sleep :: "int \<Rightarrow> ('w, unit) action" where
  "time_sleep d s =
     (if d < 0 then (Inl (ValueError ''sleep length must be non-negative''), s)
      else (Inr (), s\<lparr>trace := trace s @ [Sleep d]\<rparr>))"

section \<open>The not-found retry wrapper\<close>

text \<open>
  The three attributes of \<^verbatim>\<open>self\<close> that the wrapper reads. The delay is a
  \<^verbatim>\<open>timedelta\<close>, kept here as its number of microseconds. They are set when the
  client is built and no operation of the module assigns them, so they are a parameter of
  the wrapper and not part of the world the inner call changes.
\<close>

record retry_config =
  retry_get_record_on_not_found :: bool
  retry_get_record_on_not_found_attempts :: int
  retry_get_record_on_not_found_delay :: int

text \<open>
  The \<^verbatim>\<open>while\<close> loop of \<^verbatim>\<open>wrapper\<close>, with its two locals \<open>attempted\<close> and \<open>err\<close>
  (\<^verbatim>\<open>error\<close> in the source). \<open>nf\<close> is the constant \<^verbatim>\<open>FILEMAKER_NOT_FOUND_ERRORS\<close>.
  The \<^verbatim>\<open>finally\<close> clause increments \<open>attempted\<close> on every path; only the path that
  loops reads it again. An exception that is not a \<^verbatim>\<open>FileMakerError\<close> is not caught.
\<close>

function retry_loop ::
  "retry_config \<Rightarrow> string list \<Rightarrow> ('w, 'a returned) action \<Rightarrow> int \<Rightarrow> error option \<Rightarrow>
     ('w, 'a returned) action" where
  "retry_loop cfg nf f attempted err s =
     (if attempted \<le> retry_get_record_on_not_found_attempts cfg then
        (case f s of
           (Inr result, s1) \<Rightarrow> (Inr result, s1)
         | (Inl e, s1) \<Rightarrow>
             (case e of
                FileMakerError m \<Rightarrow>
                  (if m \<notin> set nf then (Inl e, s1)
                   else
                     (case time_sleep (retry_get_record_on_not_found_delay cfg) s1 of
                        (Inl e', s2) \<Rightarrow> (Inl e', s2)
                      | (Inr u, s2) \<Rightarrow> retry_loop cfg nf f (attempted + 1) (Some e) s2))
              | _ \<Rightarrow> (Inl e, s1)))
      else (case err of Some e \<Rightarrow> (Inl e, s) | None \<Rightarrow> (Inr PyNone, s)))"
  by pat_completeness auto
termination
  by (relation "measure (\<lambda>(cfg, nf, f, attempted, err, s).
        nat (retry_get_record_on_not_found_attempts cfg + 1 - attempted))") auto

declare retry_loop.simps [simp del]

text \<open>
  \<^verbatim>\<open>_with_retry_get_resource(f)\<close>. With the flag off the source executes
  \<^verbatim>\<open>return f(self, *args, **kwargs)\<close>, without \<^verbatim>\<open>await\<close>: calling a coroutine function
  creates the coroutine object and runs nothing of its body.
\<close>

definition with_retry_get_resource ::
  "retry_config \<Rightarrow> string list \<Rightarrow> ('w, 'a returned) action \<Rightarrow> ('w, 'a returned) action" where
  "with_retry_get_resource cfg nf f s =
     (if \<not> retry_get_record_on_not_found cfg then (Inr Coroutine, s)
      else retry_loop cfg nf f 0 None s)"

text \<open>The world before attempt \<open>k\<close> (counted from 0), and that attempt's outcome.\<close>

primrec world_after :: "('w \<Rightarrow> (error + 'a) \<times> 'w) \<Rightarrow> 'w \<Rightarrow> nat \<Rightarrow> 'w" where
  "world_after body w 0 = w"
| "world_after body w (Suc k) = world_after body (snd (body w)) k"

definition outcome_at :: "('w \<Rightarrow> (error + 'a) \<times> 'w) \<Rightarrow> 'w \<Rightarrow> nat \<Rightarrow> error + 'a" where
  "outcome_at body w k = fst (body (world_after body w k))"

text \<open>The value of the local \<^verbatim>\<open>error\<close> after \<open>k\<close> attempts.\<close>

primrec err_after ::
  "('w \<Rightarrow> (error + 'a) \<times> 'w) \<Rightarrow> 'w \<Rightarrow> nat \<Rightarrow> error option \<Rightarrow> error option" where
  "err_after body w 0 err = err"
| "err_after body w (Suc k) err =
     err_after body (snd (body w)) k (case fst (body w) of Inl e \<Rightarrow> Some e | Inr r \<Rightarrow> err)"

text \<open>Reading a trace: the lengths slept, in order, and the number of inner calls.\<close>

definition sleeps_of :: "event list \<Rightarrow> int list" where
  "sleeps_of tr = concat (map (\<lambda>ev. case ev of Sleep d \<Rightarrow> [d] | _ \<Rightarrow> []) tr)"

definition inner_calls :: "event list \<Rightarrow> nat" where
  "inner_calls tr = length (filter (\<lambda>ev. ev = InnerCall) tr)"

section \<open>The client, the relogin wrapper and the remote call\<close>

text \<open>
  The attributes of \<^verbatim>\<open>self\<close> that \<^verbatim>\<open>_call_filemaker_async\<close> reads, and the remote side
  \<open>net\<close> that a request acts on.
\<close>

record 'n client =
  url :: string
  token :: "string option"
  headers :: "string \<rightharpoonup> string"
  verify_ssl :: bool
  net :: 'n

text \<open>
  Modelled from the spec: the re-authentication cycle of the class \<^verbatim>\<open>Server\<close>, whose login
  and logout are not part of \<^verbatim>\<open>server_async.py\<close>. In the spec's words it is to "acquire a
  new session token, replacing the stored one", and "if re-authentication itself fails,
  that failure propagates". \<open>login\<close> is the answer of the remote side to a login request.
\<close>

definition relogin :: "('n \<Rightarrow> (error + string) \<times> 'n) \<Rightarrow> ('n client, unit) action" where
  "relogin login s =
     (case login (net (world s)) of
        (Inl e, n') \<Rightarrow>
          (Inl e, s\<lparr>world := (world s)\<lparr>net := n'\<rparr>, trace := trace s @ [Relogin]\<rparr>)
      | (Inr new_token, n') \<Rightarrow>
          (Inr (), s\<lparr>world := (world s)\<lparr>token := Some new_token, net := n'\<rparr>,
                     trace := trace s @ [Relogin]\<rparr>))"

text \<open>
  Modelled from the spec: the decorator \<^verbatim>\<open>Server._with_auto_relogin\<close>, defined in the class
  \<^verbatim>\<open>Server\<close> and only applied in \<^verbatim>\<open>server_async.py\<close>. The spec: "it calls the wrapped
  operation. If the operation fails with an error classified as session invalid, the
  wrapper performs exactly one re-authentication cycle and re-invokes the wrapped operation
  exactly once more. Any other error classification propagates unchanged, immediately,
  without retry. If re-authentication itself fails, that failure propagates." Session
  invalid is a subdivision, by message, of the remote application error; \<open>session_invalid\<close>
  lists its messages.
\<close>

definition with_auto_relogin ::
  "string list \<Rightarrow> ('w, unit) action \<Rightarrow> ('w, 'a) action \<Rightarrow> ('w, 'a) action" where
  "with_auto_relogin session_invalid reauth f s =
     (case f s of
        (Inr r, s1) \<Rightarrow> (Inr r, s1)
      | (Inl e, s1) \<Rightarrow>
          (case e of
             FileMakerError m \<Rightarrow>
               (if m \<in> set session_invalid then
                  (case reauth s1 of
                     (Inl e', s2) \<Rightarrow> (Inl e', s2)
                   | (Inr u, s2) \<Rightarrow> f s2)
                else (Inl e, s1))
           | _ \<Rightarrow> (Inl e, s1)))"

text \<open>
  Modelled from the spec: \<^verbatim>\<open>Server._update_token_header\<close>, which is not part of
  \<^verbatim>\<open>server_async.py\<close>: it "ensures the current session token (if any) is attached to
  outgoing headers; if no token is held, any stale Authorization header is stripped".
\<close>

definition update_token_header :: "'n client \<Rightarrow> 'n client" where
  "update_token_header self =
     (case token self of
        Some t \<Rightarrow> self\<lparr>headers := (headers self)(''Authorization'' \<mapsto> t)\<rparr>
      | None \<Rightarrow> self\<lparr>headers := (headers self)(''Authorization'' := None)\<rparr>)"

text \<open>
  Modelled from the spec: \<^verbatim>\<open>Server.handle_response_data\<close>, which is not part of
  \<^verbatim>\<open>server_async.py\<close>. The remote call "returns a normalized result map on success" and
  "fails with a domain error carrying the remote system's code/message if the decoded
  response indicates an application-level failure"; the spec's round-trip property takes
  the result map of a success to be the decoded JSON. \<open>failure\<close> reads the remote
  system's error text off a decoded response, \<open>None\<close> for a success.
\<close>

definition handle_response_data :: "('j \<Rightarrow> string option) \<Rightarrow> 'j \<Rightarrow> error + 'j" where
  "handle_response_data failure response_data =
     (case failure response_data of
        Some msg \<Rightarrow> Inl (FileMakerError msg)
      | None \<Rightarrow> Inr response_data)"

text \<open>The arguments that \<^verbatim>\<open>_call_filemaker_async\<close> hands to \<^verbatim>\<open>request_async\<close>.\<close>

record 'j request =
  req_method :: string
  req_path :: string
  req_json :: "'j option"
  req_params :: "(string \<times> string) list option"
  req_headers :: "string \<rightharpoonup> string"
  req_verify_ssl :: bool
  req_kwargs :: "(string \<times> string) list"

text \<open>
  The keyword arguments of the call \<^verbatim>\<open>request_async(method, path=url, json=data, ...)\<close>.
\<close>

definition request_of ::
  "string \<Rightarrow> string \<Rightarrow> 'j option \<Rightarrow> (string \<times> string) list option \<Rightarrow> (string \<times> string) list \<Rightarrow>
   'n client \<Rightarrow> 'j request" where
  "request_of method url' data params kwargs self =
     \<lparr>req_method = method, req_path = url', req_json = data, req_params = params,
      req_headers = headers self, req_verify_ssl = verify_ssl self, req_kwargs = kwargs\<rparr>"

text \<open>
  The body of \<^verbatim>\<open>_call_filemaker_async\<close>. \<open>request_async\<close> is the transport of
  \<^verbatim>\<open>fmrest.utils\<close>: it returns the response text or raises. \<open>json_loads\<close> is
  \<^verbatim>\<open>json.loads\<close>: the decoded value, or the \<^verbatim>\<open>JSONDecodeError\<close> it raises.
\<close>

definition call_filemaker_async_body ::
  "('j request \<Rightarrow> 'n \<Rightarrow> (error + string) \<times> 'n) \<Rightarrow> (string \<Rightarrow> json_decode_error + 'j) \<Rightarrow>
   ('j \<Rightarrow> string option) \<Rightarrow>
   string \<Rightarrow> string \<Rightarrow> 'j option \<Rightarrow> (string \<times> string) list option \<Rightarrow> (string \<times> string) list \<Rightarrow>
   'n client \<Rightarrow> (error + 'j returned) \<times> 'n client" where
  "call_filemaker_async_body request_async json_loads failure method path data params kwargs self =
     (let url' = url self @ path;
          self1 = update_token_header self
      in case request_async (request_of method url' data params kwargs self1) (net self1) of
           (Inl e, n') \<Rightarrow> (Inl e, self1\<lparr>net := n'\<rparr>)
         | (Inr response_text, n') \<Rightarrow>
             (case json_loads response_text of
                Inl ex \<Rightarrow> (Inl (BadJSON ex response_text), self1\<lparr>net := n'\<rparr>)
              | Inr response_data \<Rightarrow>
                  (case handle_response_data failure response_data of
                     Inl e \<Rightarrow> (Inl e, self1\<lparr>net := n'\<rparr>)
                   | Inr result \<Rightarrow> (Inr (Value result), self1\<lparr>net := n'\<rparr>))))"

section \<open>The operations and their decorators\<close>

text \<open>
  The coroutine functions of \<^verbatim>\<open>ServerAsync\<close> and the decorators written above each, top
  to bottom. The source names both decorators through the base class, as
  \<^verbatim>\<open>Server._with_retry_get_resource\<close> and \<^verbatim>\<open>Server._with_auto_relogin\<close>: attributes of
  the class \<^verbatim>\<open>Server\<close>, which is imported and not defined in \<^verbatim>\<open>server_async.py\<close>.
\<close>

datatype operation =
    Create_record_async
  | Edit_record_async
  | Delete_record_async
  | Get_record_async
  | Perform_script_async
  | Get_records_async
  | Find_async
  | Fetch_file_async
  | Set_globals_async
  | Call_filemaker_async

datatype decorator = With_retry_get_resource | With_auto_relogin

fun decorators :: "operation \<Rightarrow> decorator list" where
  "decorators Create_record_async = []"
| "decorators Edit_record_async = [With_auto_relogin]"
| "decorators Delete_record_async = [With_auto_relogin]"
| "decorators Get_record_async = [With_retry_get_resource, With_auto_relogin]"
| "decorators Perform_script_async = [With_auto_relogin]"
| "decorators Get_records_async = [With_retry_get_resource, With_auto_relogin]"
| "decorators Find_async = [With_retry_get_resource, With_auto_relogin]"
| "decorators Fetch_file_async = [With_auto_relogin]"
| "decorators Set_globals_async = [With_auto_relogin]"
| "decorators Call_filemaker_async = [With_auto_relogin]"

text \<open>
  Python applies the decorator nearest to the function first, so the one written on top
  is outermost. What the two attributes of \<^verbatim>\<open>Server\<close> are is not fixed here:
  \<open>retry_get_resource\<close> stands for \<^verbatim>\<open>Server._with_retry_get_resource\<close> and
  \<open>auto_relogin\<close> for \<^verbatim>\<open>Server._with_auto_relogin\<close>, and \<open>f\<close> is the decorated function.
\<close>

fun decorate ::
  "(('w, 'a returned) action \<Rightarrow> ('w, 'a returned) action) \<Rightarrow>
   (('w, 'a returned) action \<Rightarrow> ('w, 'a returned) action) \<Rightarrow>
   decorator \<Rightarrow> ('w, 'a returned) action \<Rightarrow> ('w, 'a returned) action" where
  "decorate retry_get_resource auto_relogin With_retry_get_resource f = retry_get_resource f"
| "decorate retry_get_resource auto_relogin With_auto_relogin f = auto_relogin f"

definition operation_async ::
  "(('w, 'a returned) action \<Rightarrow> ('w, 'a returned) action) \<Rightarrow>
   (('w, 'a returned) action \<Rightarrow> ('w, 'a returned) action) \<Rightarrow>
   operation \<Rightarrow> ('w, 'a returned) action \<Rightarrow> ('w, 'a returned) action" where
  "operation_async retry_get_resource auto_relogin op f =
     foldr (decorate retry_get_resource auto_relogin) (decorators op) f"

text \<open>
  The body that the nine public operations share: the payload is prepared, the decorated
  \<^verbatim>\<open>self._call_filemaker_async(**payload)\<close> is awaited, and the response is handed to the
  operation's \<^verbatim>\<open>..._prepare_result\<close>. \<open>call_filemaker\<close> is that decorated call on the
  prepared payload; \<open>prepare_result\<close> is the result mapper of the class \<^verbatim>\<open>Server\<close>, a
  parameter here. An exception of the awaited call leaves the body as it is. The body
  records no event of its own: the inner calls in the trace are the executions of the
  remote call it awaits.
\<close>

definition operation_body ::
  "('w, 'j returned) action \<Rightarrow> ('j returned \<Rightarrow> error + 'a returned) \<Rightarrow> ('w, 'a returned) action" where
  "operation_body call_filemaker prepare_result s =
     (case call_filemaker s of
        (Inl e, s1) \<Rightarrow> (Inl e, s1)
      | (Inr response, s1) \<Rightarrow> (prepare_result response, s1))"

text \<open>
  Modelled from the spec: the decorator \<^verbatim>\<open>Server._with_retry_get_resource\<close> that the source
  applies to the three read operations; it is an attribute of the class \<^verbatim>\<open>Server\<close>, which is
  not part of \<^verbatim>\<open>server_async.py\<close>. The spec: "Behavior when enabled: attempt the wrapped
  operation. On success, return immediately. On failure: if the error's message does not
  match any entry in the fixed not-found-error set, re-raise immediately. If it does match,
  record the error, wait delay, and retry, up to max_attempts + 1 total attempts. After
  exhausting attempts, raise the last recorded error. When enabled is false, the wrapper
  performs exactly one attempt and returns/raises whatever the inner call does, with no
  delay." The enabled behaviour is the loop \<open>retry_loop\<close>; the disabled one is the single
  attempt of the spec.
\<close>

definition server_with_retry_get_resource ::
  "retry_config \<Rightarrow> string list \<Rightarrow> ('w, 'a returned) action \<Rightarrow> ('w, 'a returned) action" where
  "server_with_retry_get_resource cfg nf f s =
     (if \<not> retry_get_record_on_not_found cfg then f s
      else retry_loop cfg nf f 0 None s)"

section \<open>One iteration of the loop\<close>

lemma retry_loop_exit:
  "\<not> attempted \<le> retry_get_record_on_not_found_attempts cfg \<Longrightarrow>
   retry_loop cfg nf f attempted err s =
     (case err of Some e \<Rightarrow> (Inl e, s) | None \<Rightarrow> (Inr PyNone, s))"
  by (subst retry_loop.simps) simp

lemma retry_loop_success:
  "attempted \<le> retry_get_record_on_not_found_attempts cfg \<Longrightarrow> f s = (Inr r, s1) \<Longrightarrow>
   retry_loop cfg nf f attempted err s = (Inr r, s1)"
  by (subst retry_loop.simps) simp

lemma retry_loop_other_error:
  "attempted \<le> retry_get_record_on_not_found_attempts cfg \<Longrightarrow>
   f s = (Inl (FileMakerError m), s1) \<Longrightarrow> m \<notin> set nf \<Longrightarrow>
   retry_loop cfg nf f attempted err s = (Inl (FileMakerError m), s1)"
  by (subst retry_loop.simps) simp

lemma retry_loop_uncaught:
  "attempted \<le> retry_get_record_on_not_found_attempts cfg \<Longrightarrow>
   f s = (Inl e, s1) \<Longrightarrow> \<not> is_FileMakerError e \<Longrightarrow>
   retry_loop cfg nf f attempted err s = (Inl e, s1)"
  by (subst retry_loop.simps) (cases e; simp)

lemma retry_loop_not_found:
  "attempted \<le> retry_get_record_on_not_found_attempts cfg \<Longrightarrow>
   f s = (Inl (FileMakerError m), s1) \<Longrightarrow> m \<in> set nf \<Longrightarrow>
   0 \<le> retry_get_record_on_not_found_delay cfg \<Longrightarrow>
   retry_loop cfg nf f attempted err s =
     retry_loop cfg nf f (attempted + 1) (Some (FileMakerError m))
       (s1\<lparr>trace := trace s1 @ [Sleep (retry_get_record_on_not_found_delay cfg)]\<rparr>)"
  by (subst retry_loop.simps) (simp add: time_sleep_def)

lemma retry_loop_negative_delay:
  "attempted \<le> retry_get_record_on_not_found_attempts cfg \<Longrightarrow>
   f s = (Inl (FileMakerError m), s1) \<Longrightarrow> m \<in> set nf \<Longrightarrow>
   retry_get_record_on_not_found_delay cfg < 0 \<Longrightarrow>
   retry_loop cfg nf f attempted err s =
     (Inl (ValueError ''sleep length must be non-negative''), s1)"
  by (subst retry_loop.simps) (simp add: time_sleep_def)

lemma with_retry_disabled:
  "\<not> retry_get_record_on_not_found cfg \<Longrightarrow>
   with_retry_get_resource cfg nf f s = (Inr Coroutine, s)"
  by (simp add: with_retry_get_resource_def)

section \<open>Runs of failing attempts\<close>

lemma err_after_last:
  "outcome_at body w k = Inl e \<Longrightarrow> err_after body w (Suc k) err = Some e"
proof (induction k arbitrary: w err)
  case 0
  then show ?case by (simp add: outcome_at_def)
next
  case (Suc k)
  from Suc.prems have "outcome_at body (snd (body w)) k = Inl e"
    by (simp add: outcome_at_def)
  from Suc.IH [OF this] show ?case by simp
qed

lemma retry_loop_skip_failures:
  assumes d: "0 \<le> retry_get_record_on_not_found_delay cfg"
  shows "(\<forall>i<k. \<exists>m\<in>set nf. outcome_at body w i = Inl (FileMakerError m)) \<Longrightarrow>
    attempted + int k \<le> retry_get_record_on_not_found_attempts cfg + 1 \<Longrightarrow>
    retry_loop cfg nf (call body) attempted err \<lparr>world = w, trace = t\<rparr> =
    retry_loop cfg nf (call body) (attempted + int k) (err_after body w k err)
      \<lparr>world = world_after body w k,
       trace = t @ concat (replicate k [InnerCall, Sleep (retry_get_record_on_not_found_delay cfg)])\<rparr>"
proof (induction k arbitrary: w attempted err t)
  case 0
  then show ?case by simp
next
  case (Suc k)
  from Suc.prems(1) obtain m where m: "m \<in> set nf" "outcome_at body w 0 = Inl (FileMakerError m)"
    by auto
  obtain w' where bw: "body w = (Inl (FileMakerError m), w')"
    using m(2) by (cases "body w") (simp add: outcome_at_def)
  have le: "attempted \<le> retry_get_record_on_not_found_attempts cfg"
    using Suc.prems(2) by simp
  have step: "retry_loop cfg nf (call body) attempted err \<lparr>world = w, trace = t\<rparr> =
      retry_loop cfg nf (call body) (attempted + 1) (Some (FileMakerError m))
        \<lparr>world = w', trace = t @ [InnerCall, Sleep (retry_get_record_on_not_found_delay cfg)]\<rparr>"
  proof -
    have cb: "call body \<lparr>world = w, trace = t\<rparr> =
        (Inl (FileMakerError m), \<lparr>world = w', trace = t @ [InnerCall]\<rparr>)"
      using bw by (simp add: call_def)
    show ?thesis
      using retry_loop_not_found
        [where f = "call body" and s = "\<lparr>world = w, trace = t\<rparr>", OF le cb m(1) d]
      by simp
  qed
  have rest: "\<forall>i<k. \<exists>m\<in>set nf. outcome_at body w' i = Inl (FileMakerError m)"
  proof (intro allI impI)
    fix i assume "i < k"
    then have "Suc i < Suc k" by simp
    with Suc.prems(1) obtain m' where "m' \<in> set nf" "outcome_at body w (Suc i) = Inl (FileMakerError m')"
      by blast
    then show "\<exists>m\<in>set nf. outcome_at body w' i = Inl (FileMakerError m)"
      using bw by (auto simp: outcome_at_def)
  qed
  have bound: "(attempted + 1) + int k \<le> retry_get_record_on_not_found_attempts cfg + 1"
    using Suc.prems(2) by simp
  show ?case
    unfolding step Suc.IH [OF rest bound]
    using bw by (simp add: algebra_simps)
qed

lemma sleeps_of_append: "sleeps_of (xs @ ys) = sleeps_of xs @ sleeps_of ys"
  by (simp add: sleeps_of_def)

lemma sleeps_of_rounds:
  "sleeps_of (concat (replicate k [InnerCall, Sleep d])) = replicate k d"
  by (induction k) (simp_all add: sleeps_of_def)

lemma inner_calls_append: "inner_calls (xs @ ys) = inner_calls xs + inner_calls ys"
  by (simp add: inner_calls_def)

lemma inner_calls_rounds:
  "inner_calls (concat (replicate k [InnerCall, Sleep d])) = k"
  by (induction k) (simp_all add: inner_calls_def)

lemma last_rounds:
  "last (t @ concat (replicate (Suc k) [InnerCall, Sleep d])) = Sleep d"
proof -
  have "concat (replicate (Suc k) [InnerCall, Sleep d]) =
      concat (replicate k [InnerCall, Sleep d]) @ [InnerCall, Sleep d]"
    by (induction k) simp_all
  then show ?thesis by simp
qed

lemma world_after_Suc: "world_after body w (Suc k) = snd (body (world_after body w k))"
  by (induction k arbitrary: w) simp_all

lemma retry_succeeds_at:
  assumes en: "retry_get_record_on_not_found cfg"
    and j: "int j \<le> retry_get_record_on_not_found_attempts cfg"
    and d: "0 < j \<longrightarrow> 0 \<le> retry_get_record_on_not_found_delay cfg"
    and fails: "\<forall>i<j. \<exists>m\<in>set nf. outcome_at body w i = Inl (FileMakerError m)"
    and ok: "outcome_at body w j = Inr r"
  shows "with_retry_get_resource cfg nf (call body) \<lparr>world = w, trace = t\<rparr> =
    (Inr r,
     \<lparr>world = world_after body w (Suc j),
      trace = t @ concat (replicate j [InnerCall, Sleep (retry_get_record_on_not_found_delay cfg)])
                @ [InnerCall]\<rparr>)"
proof -
  let ?d = "retry_get_record_on_not_found_delay cfg"
  let ?s = "\<lparr>world = world_after body w j, trace = t @ concat (replicate j [InnerCall, Sleep ?d])\<rparr>"
  have skip: "retry_loop cfg nf (call body) 0 None \<lparr>world = w, trace = t\<rparr> =
      retry_loop cfg nf (call body) (int j) (err_after body w j None) ?s"
  proof (cases "j = 0")
    case True
    then show ?thesis by simp
  next
    case False
    with d have "0 \<le> ?d" by simp
    from retry_loop_skip_failures [OF this fails, of 0 None t] j show ?thesis by simp
  qed
  obtain w' where bw: "body (world_after body w j) = (Inr r, w')"
    using ok by (cases "body (world_after body w j)") (simp add: outcome_at_def)
  have w': "world_after body w (Suc j) = w'"
    using bw by (simp only: world_after_Suc snd_conv)
  have cb: "call body ?s = (Inr r, \<lparr>world = w', trace = trace ?s @ [InnerCall]\<rparr>)"
    using bw by (simp add: call_def)
  have "retry_loop cfg nf (call body) (int j) (err_after body w j None) ?s =
      (Inr r, \<lparr>world = w', trace = trace ?s @ [InnerCall]\<rparr>)"
    using retry_loop_success [where f = "call body" and s = ?s, OF j cb] .
  with skip en w' show ?thesis
    by (simp add: with_retry_get_resource_def)
qed

lemma retry_exhausted:
  assumes en: "retry_get_record_on_not_found cfg"
    and n: "0 \<le> retry_get_record_on_not_found_attempts cfg"
    and d: "0 \<le> retry_get_record_on_not_found_delay cfg"
    and fails: "\<forall>i \<le> nat (retry_get_record_on_not_found_attempts cfg).
                 \<exists>m\<in>set nf. outcome_at body w i = Inl (FileMakerError m)"
    and final: "outcome_at body w (nat (retry_get_record_on_not_found_attempts cfg)) = Inl e"
  shows "with_retry_get_resource cfg nf (call body) \<lparr>world = w, trace = t\<rparr> =
    (Inl e,
     \<lparr>world = world_after body w (Suc (nat (retry_get_record_on_not_found_attempts cfg))),
      trace = t @ concat (replicate (Suc (nat (retry_get_record_on_not_found_attempts cfg)))
                [InnerCall, Sleep (retry_get_record_on_not_found_delay cfg)])\<rparr>)"
proof -
  let ?n = "nat (retry_get_record_on_not_found_attempts cfg)"
  let ?d = "retry_get_record_on_not_found_delay cfg"
  have fails': "\<forall>i<Suc ?n. \<exists>m\<in>set nf. outcome_at body w i = Inl (FileMakerError m)"
    using fails by (simp add: less_Suc_eq_le)
  have bound: "0 + int (Suc ?n) \<le> retry_get_record_on_not_found_attempts cfg + 1"
    using n by simp
  have skip: "retry_loop cfg nf (call body) 0 None \<lparr>world = w, trace = t\<rparr> =
      retry_loop cfg nf (call body) (0 + int (Suc ?n)) (err_after body w (Suc ?n) None)
        \<lparr>world = world_after body w (Suc ?n),
         trace = t @ concat (replicate (Suc ?n) [InnerCall, Sleep ?d])\<rparr>"
    by (rule retry_loop_skip_failures [OF d fails' bound])
  have out: "\<not> 0 + int (Suc ?n) \<le> retry_get_record_on_not_found_attempts cfg"
    using n by simp
  show ?thesis
    using en
    by (simp only: with_retry_get_resource_def skip retry_loop_exit [OF out]
        err_after_last [OF final]) simp
qed

section \<open>The relogin wrapper and the composed operations\<close>

lemma relogin_wrapper_recovers:
  assumes b1: "body w = (Inl (FileMakerError m), w1)"
    and si: "m \<in> set session_invalid"
    and lg: "login (net w1) = (Inr tok, n')"
    and b2: "body (w1\<lparr>token := Some tok, net := n'\<rparr>) = (r2, w2)"
  shows "with_auto_relogin session_invalid (relogin login) (call body) \<lparr>world = w, trace = t\<rparr> =
    (r2, \<lparr>world = w2, trace = t @ [InnerCall, Relogin, InnerCall]\<rparr>)"
  using assms by (simp add: with_auto_relogin_def call_def relogin_def)

lemma relogin_wrapper_login_fails:
  assumes b1: "body w = (Inl (FileMakerError m), w1)"
    and si: "m \<in> set session_invalid"
    and lg: "login (net w1) = (Inl e, n')"
  shows "with_auto_relogin session_invalid (relogin login) (call body) \<lparr>world = w, trace = t\<rparr> =
    (Inl e, \<lparr>world = w1\<lparr>net := n'\<rparr>, trace = t @ [InnerCall, Relogin]\<rparr>)"
  using assms by (simp add: with_auto_relogin_def call_def relogin_def)

lemma relogin_wrapper_other_error:
  assumes b1: "f s = (Inl e, s1)"
    and nsi: "\<forall>m. e = FileMakerError m \<longrightarrow> m \<notin> set session_invalid"
  shows "with_auto_relogin session_invalid reauth f s = (Inl e, s1)"
  using nsi by (cases e) (simp_all add: with_auto_relogin_def b1)

lemma relogin_wrapper_success:
  "f s = (Inr r, s1) \<Longrightarrow> with_auto_relogin session_invalid reauth f s = (Inr r, s1)"
  by (simp add: with_auto_relogin_def)

lemma operation_async_read:
  "op \<in> {Get_record_async, Get_records_async, Find_async} \<Longrightarrow>
   operation_async rd ar op f = rd (ar f)"
  by (auto simp: operation_async_def)

lemma operation_async_call_filemaker:
  "operation_async rd ar Call_filemaker_async f = ar f"
  by (simp add: operation_async_def)

lemma one_attempt_through_relogin:
  assumes b1: "raw w = (Inl (FileMakerError m1), w1)"
    and si: "m1 \<in> set session_invalid"
    and lg: "login (net w1) = (Inr tok, n')"
    and b2: "raw (w1\<lparr>token := Some tok, net := n'\<rparr>) = (Inl (FileMakerError m2), w2)"
    and nsi: "m2 \<notin> set session_invalid"
  shows "with_auto_relogin session_invalid (relogin login)
      (operation_body
         (operation_async rd (with_auto_relogin session_invalid (relogin login))
            Call_filemaker_async (call raw))
         prepare_result)
      \<lparr>world = w, trace = t\<rparr> =
    (Inl (FileMakerError m2), \<lparr>world = w2, trace = t @ [InnerCall, Relogin, InnerCall]\<rparr>)"
proof -
  have inner: "with_auto_relogin session_invalid (relogin login) (call raw)
      \<lparr>world = w, trace = t\<rparr> =
    (Inl (FileMakerError m2), \<lparr>world = w2, trace = t @ [InnerCall, Relogin, InnerCall]\<rparr>)"
    using b1 si lg b2 by (simp add: with_auto_relogin_def call_def relogin_def)
  have body: "operation_body
         (operation_async rd (with_auto_relogin session_invalid (relogin login))
            Call_filemaker_async (call raw))
         prepare_result \<lparr>world = w, trace = t\<rparr> =
    (Inl (FileMakerError m2), \<lparr>world = w2, trace = t @ [InnerCall, Relogin, InnerCall]\<rparr>)"
    by (simp add: operation_body_def operation_async_call_filemaker inner)
  show ?thesis
    using nsi by (simp add: with_auto_relogin_def body)
qed

lemma expiring_sessions_loop:
  assumes d: "0 \<le> retry_get_record_on_not_found_delay cfg"
    and si: "sm \<in> set session_invalid" and nf: "nm \<in> set nf"
    and nsi: "nm \<notin> set session_invalid"
    and b1: "raw c = (Inl (FileMakerError sm), c)"
    and lg: "login (net c) = (Inr tok, n1)"
    and b2: "raw (c\<lparr>token := Some tok, net := n1\<rparr>) = (Inl (FileMakerError nm), c)"
  shows "attempted + int k = retry_get_record_on_not_found_attempts cfg + 1 \<Longrightarrow>
    (k = 0 \<longrightarrow> err = Some (FileMakerError nm)) \<Longrightarrow>
    retry_loop cfg nf
      (with_auto_relogin session_invalid (relogin login)
         (operation_body
            (operation_async rd (with_auto_relogin session_invalid (relogin login))
               Call_filemaker_async (call raw))
            prepare_result))
      attempted err \<lparr>world = c, trace = t\<rparr> =
    (Inl (FileMakerError nm),
     \<lparr>world = c,
      trace = t @ concat (replicate k
                [InnerCall, Relogin, InnerCall,
                 Sleep (retry_get_record_on_not_found_delay cfg)])\<rparr>)"
proof (induction k arbitrary: attempted err t)
  case 0
  then have out: "\<not> attempted \<le> retry_get_record_on_not_found_attempts cfg" by simp
  have e: "err = Some (FileMakerError nm)" using 0 by simp
  show ?case unfolding e by (subst retry_loop_exit [OF out]) simp
next
  case (Suc k)
  let ?f = "with_auto_relogin session_invalid (relogin login)
         (operation_body
            (operation_async rd (with_auto_relogin session_invalid (relogin login))
               Call_filemaker_async (call raw))
            prepare_result)"
  have le: "attempted \<le> retry_get_record_on_not_found_attempts cfg"
    using Suc.prems(1) by simp
  have run: "?f \<lparr>world = c, trace = t\<rparr> =
      (Inl (FileMakerError nm), \<lparr>world = c, trace = t @ [InnerCall, Relogin, InnerCall]\<rparr>)"
    using b1 si lg b2 nsi by (rule one_attempt_through_relogin)
  have step: "retry_loop cfg nf ?f attempted err \<lparr>world = c, trace = t\<rparr> =
    retry_loop cfg nf ?f (attempted + 1) (Some (FileMakerError nm))
      \<lparr>world = c,
       trace = t @ [InnerCall, Relogin, InnerCall,
                    Sleep (retry_get_record_on_not_found_delay cfg)]\<rparr>"
    using retry_loop_not_found [where f = ?f and s = "\<lparr>world = c, trace = t\<rparr>", OF le run nf d]
    by simp
  have bound: "(attempted + 1) + int k = retry_get_record_on_not_found_attempts cfg + 1"
    using Suc.prems(1) by simp
  show ?case
    unfolding step
    by (subst Suc.IH [OF bound]) simp_all
qed

section \<open>The claims about the not-found retry wrapper\<close>

text \<open>
  C1. With the flag \<^verbatim>\<open>retry_get_record_on_not_found\<close> off, the wrapper is meant to make
  exactly one inner call and to return its result or raise its error, without delay. The
  source returns \<^verbatim>\<open>f(self, *args, **kwargs)\<close> without awaiting it, where the enabled path
  has \<^verbatim>\<open>await f(self, *args, **kwargs)\<close>. Evaluated on an inner operation that raises
  \<^verbatim>\<open>FileMakerError\<close>: the wrapper returns the coroutine object, raises nothing, and the
  operation has not run (the world and the trace are unchanged). There is no delay.
\<close>

theorem C1_disabled_returns_unawaited_coroutine:
  "with_retry_get_resource
     \<lparr>retry_get_record_on_not_found = False,
      retry_get_record_on_not_found_attempts = 2,
      retry_get_record_on_not_found_delay = 0\<rparr>
     [''error 101'']
     (call (\<lambda>w::nat. (Inl (FileMakerError ''error 500'') :: error + nat returned, Suc w)))
     \<lparr>world = 0, trace = []\<rparr>
   = (Inr Coroutine, \<lparr>world = 0, trace = []\<rparr>)"
  by (simp add: with_retry_get_resource_def)

text \<open>
  C2. With retry enabled, when attempts \<open>0 .. j - 1\<close> fail with a recognized not-found error
  and attempt \<open>j\<close> (within the \<open>max_attempts + 1\<close> allowed) succeeds, the wrapper returns
  the result of attempt \<open>j\<close>, having made exactly \<open>j + 1\<close> inner calls, the last event of
  the trace being that call. In particular, with \<open>max_attempts = 2\<close> and \<open>delay = 0\<close>, two
  not-found failures followed by a success give the third attempt's result after exactly
  three inner calls.
\<close>

theorem C2_success_returns_immediately:
  "(retry_get_record_on_not_found cfg \<and>
    int j \<le> retry_get_record_on_not_found_attempts cfg \<and>
    (0 < j \<longrightarrow> 0 \<le> retry_get_record_on_not_found_delay cfg) \<and>
    (\<forall>i<j. \<exists>m\<in>set nf. outcome_at body w i = Inl (FileMakerError m)) \<and>
    outcome_at body w j = Inr r \<longrightarrow>
    with_retry_get_resource cfg nf (call body) \<lparr>world = w, trace = t\<rparr> =
      (Inr r,
       \<lparr>world = world_after body w (Suc j),
        trace = t @ concat (replicate j
                  [InnerCall, Sleep (retry_get_record_on_not_found_delay cfg)]) @ [InnerCall]\<rparr>))
   \<and>
   (m1 \<in> set nf \<and> m2 \<in> set nf \<and>
    body w = (Inl (FileMakerError m1), w1) \<and>
    body w1 = (Inl (FileMakerError m2), w2) \<and>
    body w2 = (Inr r3, w3) \<longrightarrow>
    with_retry_get_resource
      \<lparr>retry_get_record_on_not_found = True,
       retry_get_record_on_not_found_attempts = 2,
       retry_get_record_on_not_found_delay = 0\<rparr>
      nf (call body) \<lparr>world = w, trace = t\<rparr> =
      (Inr r3,
       \<lparr>world = w3, trace = t @ [InnerCall, Sleep 0, InnerCall, Sleep 0, InnerCall]\<rparr>))"
proof (intro conjI impI)
  assume "retry_get_record_on_not_found cfg \<and>
    int j \<le> retry_get_record_on_not_found_attempts cfg \<and>
    (0 < j \<longrightarrow> 0 \<le> retry_get_record_on_not_found_delay cfg) \<and>
    (\<forall>i<j. \<exists>m\<in>set nf. outcome_at body w i = Inl (FileMakerError m)) \<and>
    outcome_at body w j = Inr r"
  then show "with_retry_get_resource cfg nf (call body) \<lparr>world = w, trace = t\<rparr> =
      (Inr r,
       \<lparr>world = world_after body w (Suc j),
        trace = t @ concat (replicate j
                  [InnerCall, Sleep (retry_get_record_on_not_found_delay cfg)]) @ [InnerCall]\<rparr>)"
    by (intro retry_succeeds_at) simp_all
next
  let ?cfg = "\<lparr>retry_get_record_on_not_found = True,
       retry_get_record_on_not_found_attempts = 2,
       retry_get_record_on_not_found_delay = 0\<rparr>"
  assume a: "m1 \<in> set nf \<and> m2 \<in> set nf \<and>
    body w = (Inl (FileMakerError m1), w1) \<and>
    body w1 = (Inl (FileMakerError m2), w2) \<and>
    body w2 = (Inr r3, w3)"
  have fails: "\<forall>i<Suc (Suc 0). \<exists>m\<in>set nf. outcome_at body w i = Inl (FileMakerError m)"
    using a by (simp add: outcome_at_def less_Suc_eq)
  have ok: "outcome_at body w (Suc (Suc 0)) = Inr r3"
    using a by (simp add: outcome_at_def)
  have "with_retry_get_resource ?cfg nf (call body) \<lparr>world = w, trace = t\<rparr> =
    (Inr r3,
     \<lparr>world = world_after body w (Suc (Suc (Suc 0))),
      trace = t @ concat (replicate (Suc (Suc 0))
                [InnerCall, Sleep (retry_get_record_on_not_found_delay ?cfg)]) @ [InnerCall]\<rparr>)"
    by (rule retry_succeeds_at [OF _ _ _ fails ok]) simp_all
  then show "with_retry_get_resource ?cfg nf (call body) \<lparr>world = w, trace = t\<rparr> =
      (Inr r3,
       \<lparr>world = w3, trace = t @ [InnerCall, Sleep 0, InnerCall, Sleep 0, InnerCall]\<rparr>)"
    using a by simp
qed

text \<open>The scenario of C2 on a concrete inner operation that counts its own calls.\<close>

theorem C2_success_returns_immediately_witness:
  "with_retry_get_resource
     \<lparr>retry_get_record_on_not_found = True,
      retry_get_record_on_not_found_attempts = 2,
      retry_get_record_on_not_found_delay = 0\<rparr>
     [''error 101'']
     (call (\<lambda>w::nat. (if w < 2 then Inl (FileMakerError ''error 101'') else Inr (Value (w + 40)), Suc w)))
     \<lparr>world = 0, trace = []\<rparr>
   = (Inr (Value (42::nat)),
      \<lparr>world = 3, trace = [InnerCall, Sleep 0, InnerCall, Sleep 0, InnerCall]\<rparr>)"
proof -
  let ?cfg = "\<lparr>retry_get_record_on_not_found = True,
      retry_get_record_on_not_found_attempts = 2,
      retry_get_record_on_not_found_delay = 0\<rparr>"
  let ?body = "\<lambda>w::nat. (if w < 2 then Inl (FileMakerError ''error 101'') else Inr (Value (w + 40)), Suc w)"
  note inst = C2_success_returns_immediately
    [of ?cfg "Suc (Suc 0)" "[''error 101'']" ?body 0 "Value 42" "[]"
        "''error 101''" "''error 101''" 1 2 "Value 42" 3]
  have general: "with_retry_get_resource ?cfg [''error 101''] (call ?body) \<lparr>world = 0, trace = []\<rparr> =
      (Inr (Value (42::nat)),
       \<lparr>world = world_after ?body 0 (Suc (Suc (Suc 0))),
        trace = [] @ concat (replicate (Suc (Suc 0))
                  [InnerCall, Sleep (retry_get_record_on_not_found_delay ?cfg)]) @ [InnerCall]\<rparr>)"
    using inst [THEN conjunct1] by (simp add: outcome_at_def less_Suc_eq)
  have particular: "with_retry_get_resource ?cfg [''error 101''] (call ?body) \<lparr>world = 0, trace = []\<rparr> =
      (Inr (Value (42::nat)),
       \<lparr>world = 3, trace = [] @ [InnerCall, Sleep 0, InnerCall, Sleep 0, InnerCall]\<rparr>)"
    using inst [THEN conjunct2] by simp
  from general particular show ?thesis by simp
qed

text \<open>
  C3. With retry enabled, a non-negative \<open>max_attempts\<close> and a delay that
  \<^verbatim>\<open>time.sleep\<close> accepts, when every one of the \<open>max_attempts + 1\<close> attempts fails with a
  recognized not-found error, the wrapper makes exactly \<open>max_attempts + 1\<close> inner calls and
  raises the error of the final attempt.
\<close>

theorem C3_exhausted_raises_last_error:
  assumes "retry_get_record_on_not_found cfg"
    and "0 \<le> retry_get_record_on_not_found_attempts cfg"
    and "0 \<le> retry_get_record_on_not_found_delay cfg"
    and "\<forall>i \<le> nat (retry_get_record_on_not_found_attempts cfg).
           \<exists>m\<in>set nf. outcome_at body w i = Inl (FileMakerError m)"
    and "outcome_at body w (nat (retry_get_record_on_not_found_attempts cfg)) = Inl e"
  shows "with_retry_get_resource cfg nf (call body) \<lparr>world = w, trace = t\<rparr> =
    (Inl e,
     \<lparr>world = world_after body w (Suc (nat (retry_get_record_on_not_found_attempts cfg))),
      trace = t @ concat (replicate (Suc (nat (retry_get_record_on_not_found_attempts cfg)))
                [InnerCall, Sleep (retry_get_record_on_not_found_delay cfg)])\<rparr>)"
  using assms by (rule retry_exhausted)

text \<open>Two attempts that fail with different not-found errors: the second one is raised.\<close>

theorem C3_exhausted_raises_last_error_witness:
  "with_retry_get_resource
     \<lparr>retry_get_record_on_not_found = True,
      retry_get_record_on_not_found_attempts = 1,
      retry_get_record_on_not_found_delay = 5\<rparr>
     [''error 101'', ''error 401'']
     (call (\<lambda>w::nat. (Inl (FileMakerError (if w = 0 then ''error 101'' else ''error 401''))
                         :: error + nat returned, Suc w)))
     \<lparr>world = 0, trace = []\<rparr>
   = (Inl (FileMakerError ''error 401''),
      \<lparr>world = 2, trace = [InnerCall, Sleep 5, InnerCall, Sleep 5]\<rparr>)"
proof -
  let ?cfg = "\<lparr>retry_get_record_on_not_found = True,
      retry_get_record_on_not_found_attempts = 1,
      retry_get_record_on_not_found_delay = 5\<rparr>"
  let ?body = "\<lambda>w::nat. (Inl (FileMakerError (if w = 0 then ''error 101'' else ''error 401''))
                         :: error + nat returned, Suc w)"
  show ?thesis
    using C3_exhausted_raises_last_error
      [of ?cfg "[''error 101'', ''error 401'']" ?body 0 "FileMakerError ''error 401''" "[]"]
    by (simp add: outcome_at_def le_Suc_eq)
qed

text \<open>
  C4. With retry enabled, a \<^verbatim>\<open>FileMakerError\<close> whose text is not in
  \<^verbatim>\<open>FILEMAKER_NOT_FOUND_ERRORS\<close> is re-raised at once: exactly one inner call, no sleep.
\<close>

theorem C4_other_error_reraised_at_once:
  assumes "retry_get_record_on_not_found cfg"
    and "0 \<le> retry_get_record_on_not_found_attempts cfg"
    and "body w = (Inl (FileMakerError m), w')"
    and "m \<notin> set nf"
  shows "with_retry_get_resource cfg nf (call body) \<lparr>world = w, trace = t\<rparr> =
    (Inl (FileMakerError m), \<lparr>world = w', trace = t @ [InnerCall]\<rparr>)"
proof -
  have cb: "call body \<lparr>world = w, trace = t\<rparr> =
      (Inl (FileMakerError m), \<lparr>world = w', trace = t @ [InnerCall]\<rparr>)"
    using assms(3) by (simp add: call_def)
  show ?thesis
    using assms(1)
      retry_loop_other_error [where f = "call body" and s = "\<lparr>world = w, trace = t\<rparr>",
        OF assms(2) cb assms(4)]
    by (simp add: with_retry_get_resource_def)
qed

text \<open>An inner operation that raises an error outside the not-found set.\<close>

theorem C4_other_error_reraised_at_once_witness:
  "with_retry_get_resource
     \<lparr>retry_get_record_on_not_found = True,
      retry_get_record_on_not_found_attempts = 3,
      retry_get_record_on_not_found_delay = 5\<rparr>
     [''error 101'', ''error 401'']
     (call (\<lambda>w::nat. (Inl (FileMakerError ''error 500'') :: error + nat returned, Suc w)))
     \<lparr>world = 0, trace = []\<rparr>
   = (Inl (FileMakerError ''error 500''), \<lparr>world = 1, trace = [InnerCall]\<rparr>)"
  using C4_other_error_reraised_at_once
    [of "\<lparr>retry_get_record_on_not_found = True,
      retry_get_record_on_not_found_attempts = 3,
      retry_get_record_on_not_found_delay = 5\<rparr>"
      "\<lambda>w::nat. (Inl (FileMakerError ''error 500'') :: error + nat returned, Suc w)"
      0 "''error 500''" 1 "[''error 101'', ''error 401'']" "[]"]
  by simp

text \<open>
  C9. A transport error or a \<^verbatim>\<open>BadJSON\<close> is not a \<^verbatim>\<open>FileMakerError\<close>: the
  \<^verbatim>\<open>except\<close> clause does not catch it, and with retry enabled it leaves the wrapper
  unchanged after exactly one inner call and no sleep.
\<close>

theorem C9_other_exceptions_pass_through:
  assumes "retry_get_record_on_not_found cfg"
    and "0 \<le> retry_get_record_on_not_found_attempts cfg"
    and "body w = (Inl e, w')"
    and "e = TransportError x \<or> e = BadJSON ex raw"
  shows "with_retry_get_resource cfg nf (call body) \<lparr>world = w, trace = t\<rparr> =
    (Inl e, \<lparr>world = w', trace = t @ [InnerCall]\<rparr>)"
proof -
  have cb: "call body \<lparr>world = w, trace = t\<rparr> = (Inl e, \<lparr>world = w', trace = t @ [InnerCall]\<rparr>)"
    using assms(3) by (simp add: call_def)
  have ne: "\<not> is_FileMakerError e"
    using assms(4) by auto
  show ?thesis
    using assms(1)
      retry_loop_uncaught [where f = "call body" and s = "\<lparr>world = w, trace = t\<rparr>",
        OF assms(2) cb ne]
    by (simp add: with_retry_get_resource_def)
qed

text \<open>An inner operation that raises \<^verbatim>\<open>BadJSON\<close>.\<close>

theorem C9_other_exceptions_pass_through_witness:
  "with_retry_get_resource
     \<lparr>retry_get_record_on_not_found = True,
      retry_get_record_on_not_found_attempts = 3,
      retry_get_record_on_not_found_delay = 5\<rparr>
     [''error 101'']
     (call (\<lambda>w::nat. (Inl (BadJSON (JSONDecodeError ''Expecting value'' 0) ''<html>'')
                         :: error + nat returned, Suc w)))
     \<lparr>world = 0, trace = []\<rparr>
   = (Inl (BadJSON (JSONDecodeError ''Expecting value'' 0) ''<html>''),
      \<lparr>world = 1, trace = [InnerCall]\<rparr>)"
  using C9_other_exceptions_pass_through
    [of "\<lparr>retry_get_record_on_not_found = True,
      retry_get_record_on_not_found_attempts = 3,
      retry_get_record_on_not_found_delay = 5\<rparr>"
      "\<lambda>w::nat. (Inl (BadJSON (JSONDecodeError ''Expecting value'' 0) ''<html>'')
                         :: error + nat returned, Suc w)"
      0 "BadJSON (JSONDecodeError ''Expecting value'' 0) ''<html>''" 1
      "''''" "JSONDecodeError ''Expecting value'' 0" "''<html>''" "[''error 101'']" "[]"]
  by simp

text \<open>
  C10. With retry enabled, every attempt that fails with a recognized not-found error is
  followed by the delay before the loop condition is tested again, the final attempt
  included. When all \<open>max_attempts + 1\<close> attempts fail so, the wrapper has slept
  \<open>max_attempts + 1\<close> times, and the last thing it did before raising was to sleep.
\<close>

theorem C10_delay_after_every_not_found_failure:
  "(attempted \<le> retry_get_record_on_not_found_attempts cfg \<and>
    0 \<le> retry_get_record_on_not_found_delay cfg \<and>
    body w = (Inl (FileMakerError m), w') \<and> m \<in> set nf \<longrightarrow>
    retry_loop cfg nf (call body) attempted err \<lparr>world = w, trace = t\<rparr> =
      retry_loop cfg nf (call body) (attempted + 1) (Some (FileMakerError m))
        \<lparr>world = w',
         trace = t @ [InnerCall, Sleep (retry_get_record_on_not_found_delay cfg)]\<rparr>)
   \<and>
   (retry_get_record_on_not_found cfg \<and>
    0 \<le> retry_get_record_on_not_found_attempts cfg \<and>
    0 \<le> retry_get_record_on_not_found_delay cfg \<and>
    (\<forall>i \<le> nat (retry_get_record_on_not_found_attempts cfg).
        \<exists>m\<in>set nf. outcome_at body w i = Inl (FileMakerError m)) \<longrightarrow>
    (let s' = snd (with_retry_get_resource cfg nf (call body) \<lparr>world = w, trace = t\<rparr>)
     in sleeps_of (trace s') =
          sleeps_of t @ replicate (nat (retry_get_record_on_not_found_attempts cfg) + 1)
                          (retry_get_record_on_not_found_delay cfg) \<and>
        inner_calls (trace s') =
          inner_calls t + (nat (retry_get_record_on_not_found_attempts cfg) + 1) \<and>
        last (trace s') = Sleep (retry_get_record_on_not_found_delay cfg)))"
proof (intro conjI impI)
  assume a: "attempted \<le> retry_get_record_on_not_found_attempts cfg \<and>
    0 \<le> retry_get_record_on_not_found_delay cfg \<and>
    body w = (Inl (FileMakerError m), w') \<and> m \<in> set nf"
  have cb: "call body \<lparr>world = w, trace = t\<rparr> =
      (Inl (FileMakerError m), \<lparr>world = w', trace = t @ [InnerCall]\<rparr>)"
    using a by (simp add: call_def)
  from a have le: "attempted \<le> retry_get_record_on_not_found_attempts cfg"
    and d: "0 \<le> retry_get_record_on_not_found_delay cfg" and m: "m \<in> set nf"
    by simp_all
  show "retry_loop cfg nf (call body) attempted err \<lparr>world = w, trace = t\<rparr> =
      retry_loop cfg nf (call body) (attempted + 1) (Some (FileMakerError m))
        \<lparr>world = w',
         trace = t @ [InnerCall, Sleep (retry_get_record_on_not_found_delay cfg)]\<rparr>"
    using retry_loop_not_found [where f = "call body" and s = "\<lparr>world = w, trace = t\<rparr>",
        OF le cb m d]
    by simp
next
  let ?n = "nat (retry_get_record_on_not_found_attempts cfg)"
  let ?d = "retry_get_record_on_not_found_delay cfg"
  assume a: "retry_get_record_on_not_found cfg \<and>
    0 \<le> retry_get_record_on_not_found_attempts cfg \<and>
    0 \<le> retry_get_record_on_not_found_delay cfg \<and>
    (\<forall>i \<le> nat (retry_get_record_on_not_found_attempts cfg).
        \<exists>m\<in>set nf. outcome_at body w i = Inl (FileMakerError m))"
  then obtain m where "outcome_at body w ?n = Inl (FileMakerError m)"
    by blast
  with a have run: "with_retry_get_resource cfg nf (call body) \<lparr>world = w, trace = t\<rparr> =
    (Inl (FileMakerError m),
     \<lparr>world = world_after body w (Suc ?n),
      trace = t @ concat (replicate (Suc ?n) [InnerCall, Sleep ?d])\<rparr>)"
    by (intro retry_exhausted) simp_all
  show "let s' = snd (with_retry_get_resource cfg nf (call body) \<lparr>world = w, trace = t\<rparr>)
     in sleeps_of (trace s') = sleeps_of t @ replicate (?n + 1) ?d \<and>
        inner_calls (trace s') = inner_calls t + (?n + 1) \<and>
        last (trace s') = Sleep ?d"
    unfolding run Let_def snd_conv
    by (simp add: sleeps_of_append sleeps_of_rounds inner_calls_append
        inner_calls_rounds last_rounds del: replicate.simps)
qed

text \<open>
  With \<open>max_attempts = 1\<close>: the final attempt (\<open>attempted = 1\<close>) fails, sleeps and only then
  raises; the whole call sleeps twice.
\<close>

theorem C10_delay_after_every_not_found_failure_witness:
  "retry_loop
     \<lparr>retry_get_record_on_not_found = True,
      retry_get_record_on_not_found_attempts = 1,
      retry_get_record_on_not_found_delay = 5\<rparr>
     [''error 101'']
     (call (\<lambda>w::nat. (Inl (FileMakerError ''error 101'') :: error + nat returned, Suc w)))
     1 None \<lparr>world = 0, trace = []\<rparr>
   = (Inl (FileMakerError ''error 101''), \<lparr>world = 1, trace = [InnerCall, Sleep 5]\<rparr>)
   \<and>
   (let s' = snd (with_retry_get_resource
       \<lparr>retry_get_record_on_not_found = True,
        retry_get_record_on_not_found_attempts = 1,
        retry_get_record_on_not_found_delay = 5\<rparr>
       [''error 101'']
       (call (\<lambda>w::nat. (Inl (FileMakerError ''error 101'') :: error + nat returned, Suc w)))
       \<lparr>world = 0, trace = []\<rparr>)
    in sleeps_of (trace s') = [5, 5] \<and> inner_calls (trace s') = 2 \<and>
       last (trace s') = Sleep 5)"
proof -
  let ?cfg = "\<lparr>retry_get_record_on_not_found = True,
      retry_get_record_on_not_found_attempts = 1,
      retry_get_record_on_not_found_delay = 5\<rparr>"
  let ?body = "\<lambda>w::nat. (Inl (FileMakerError ''error 101'') :: error + nat returned, Suc w)"
  note inst = C10_delay_after_every_not_found_failure
    [of 1 ?cfg ?body 0 "''error 101''" 1 "[''error 101'']" None "[]"]
  have step: "retry_loop ?cfg [''error 101''] (call ?body) 1 None \<lparr>world = 0, trace = []\<rparr> =
      retry_loop ?cfg [''error 101''] (call ?body) 2 (Some (FileMakerError ''error 101''))
        \<lparr>world = 1, trace = [InnerCall, Sleep 5]\<rparr>"
    using inst [THEN conjunct1] by simp
  have final: "retry_loop ?cfg [''error 101''] (call ?body) 2 (Some (FileMakerError ''error 101''))
        \<lparr>world = 1, trace = [InnerCall, Sleep 5]\<rparr> =
      (Inl (FileMakerError ''error 101''), \<lparr>world = 1, trace = [InnerCall, Sleep 5]\<rparr>)"
    by (simp add: retry_loop_exit)
  have counts: "let s' = snd (with_retry_get_resource ?cfg [''error 101''] (call ?body)
                    \<lparr>world = 0, trace = []\<rparr>)
     in sleeps_of (trace s') = [5, 5] \<and> inner_calls (trace s') = 2 \<and> last (trace s') = Sleep 5"
    using inst [THEN conjunct2]
    by (simp add: outcome_at_def le_Suc_eq sleeps_of_def inner_calls_def numeral_2_eq_2)
  from step final counts show ?thesis by simp
qed

section \<open>The claims about the composition and the remote call\<close>

text \<open>
  C5. The not-found retry decorator stands above exactly \<^verbatim>\<open>get_record_async\<close>,
  \<^verbatim>\<open>get_records_async\<close> and \<^verbatim>\<open>find_async\<close>, which are therefore the retry decorator
  applied to the relogin-decorated function. Create, edit, delete, perform-script,
  fetch-file and set-globals do not have it: when their body fails with a not-found error
  that the relogin decorator lets through, the operation raises it after exactly one inner
  call and no sleep, whatever the retry decorator is and however it is configured.
\<close>

theorem C5_retry_only_on_reads:
  "(With_retry_get_resource \<in> set (decorators op) \<longleftrightarrow>
      op \<in> {Get_record_async, Get_records_async, Find_async})
   \<and>
   (op \<in> {Get_record_async, Get_records_async, Find_async} \<longrightarrow>
      operation_async rd ar op f = rd (ar f))
   \<and>
   (op' \<in> {Create_record_async, Edit_record_async, Delete_record_async, Perform_script_async,
           Fetch_file_async, Set_globals_async} \<and>
    (\<forall>f s s1. f s = (Inl (FileMakerError m), s1) \<longrightarrow> ar f s = (Inl (FileMakerError m), s1)) \<and>
    body w = (Inl (FileMakerError m), w') \<and> m \<in> set nf \<longrightarrow>
    operation_async rd ar op' (call body) \<lparr>world = w, trace = t\<rparr> =
      (Inl (FileMakerError m), \<lparr>world = w', trace = t @ [InnerCall]\<rparr>))"
proof (intro conjI impI)
  show "With_retry_get_resource \<in> set (decorators op) \<longleftrightarrow>
      op \<in> {Get_record_async, Get_records_async, Find_async}"
    by (cases op) simp_all
next
  assume "op \<in> {Get_record_async, Get_records_async, Find_async}"
  then show "operation_async rd ar op f = rd (ar f)"
    by (rule operation_async_read)
next
  assume a: "op' \<in> {Create_record_async, Edit_record_async, Delete_record_async,
           Perform_script_async, Fetch_file_async, Set_globals_async} \<and>
    (\<forall>f s s1. f s = (Inl (FileMakerError m), s1) \<longrightarrow> ar f s = (Inl (FileMakerError m), s1)) \<and>
    body w = (Inl (FileMakerError m), w') \<and> m \<in> set nf"
  have cb: "call body \<lparr>world = w, trace = t\<rparr> =
      (Inl (FileMakerError m), \<lparr>world = w', trace = t @ [InnerCall]\<rparr>)"
    using a by (simp add: call_def)
  from a have pass: "ar (call body) \<lparr>world = w, trace = t\<rparr> =
      (Inl (FileMakerError m), \<lparr>world = w', trace = t @ [InnerCall]\<rparr>)"
    using cb by blast
  from a have "op' \<in> {Create_record_async, Edit_record_async, Delete_record_async,
           Perform_script_async, Fetch_file_async, Set_globals_async}" by simp
  then show "operation_async rd ar op' (call body) \<lparr>world = w, trace = t\<rparr> =
      (Inl (FileMakerError m), \<lparr>world = w', trace = t @ [InnerCall]\<rparr>)"
    using cb pass by (auto simp: operation_async_def)
qed

text \<open>
  \<^verbatim>\<open>find_async\<close> has the decorator and \<^verbatim>\<open>delete_record_async\<close> has not. With any two
  decorators, here one that tags the trace with a sleep and one that passes the function
  through, \<^verbatim>\<open>get_record_async\<close> is the first applied to the second applied to the function;
  and a not-found error from \<^verbatim>\<open>delete_record_async\<close> is raised after one call, the retry
  decorator not being reached.
\<close>

theorem C5_retry_only_on_reads_witness:
  "With_retry_get_resource \<in> set (decorators Find_async) \<and>
   With_retry_get_resource \<notin> set (decorators Delete_record_async) \<and>
   operation_async
     (\<lambda>f s. f (s\<lparr>trace := trace s @ [Sleep 1]\<rparr>))
     (\<lambda>f. f)
     Get_record_async
     (call (\<lambda>w::nat. (Inl (FileMakerError ''error 101'') :: error + nat returned, Suc w)))
     \<lparr>world = 0, trace = []\<rparr>
   = (Inl (FileMakerError ''error 101''), \<lparr>world = 1, trace = [Sleep 1, InnerCall]\<rparr>)
   \<and>
   operation_async
     (\<lambda>f s. f (s\<lparr>trace := trace s @ [Sleep 1]\<rparr>))
     (with_auto_relogin [''error 952''] (\<lambda>s. (Inr (), s\<lparr>trace := trace s @ [Relogin]\<rparr>)))
     Delete_record_async
     (call (\<lambda>w::nat. (Inl (FileMakerError ''error 101'') :: error + nat returned, Suc w)))
     \<lparr>world = 0, trace = []\<rparr>
   = (Inl (FileMakerError ''error 101''), \<lparr>world = 1, trace = [InnerCall]\<rparr>)"
proof -
  let ?rd = "\<lambda>(f :: (nat, nat returned) action) s. f (s\<lparr>trace := trace s @ [Sleep 1]\<rparr>)"
  let ?id = "\<lambda>f :: (nat, nat returned) action. f"
  let ?ar = "with_auto_relogin [''error 952''] (\<lambda>s. (Inr (), s\<lparr>trace := trace s @ [Relogin]\<rparr>))
      :: (nat, nat returned) action \<Rightarrow> _"
  let ?body = "\<lambda>w::nat. (Inl (FileMakerError ''error 101'') :: error + nat returned, Suc w)"
  have pass: "\<forall>f s s1. f s = (Inl (FileMakerError ''error 101''), s1) \<longrightarrow>
      ?ar f s = (Inl (FileMakerError ''error 101''), s1)"
    by (simp add: with_auto_relogin_def)
  have tab1: "With_retry_get_resource \<in> set (decorators Find_async)"
    using C5_retry_only_on_reads [where op = Find_async, THEN conjunct1] by simp
  have tab2: "With_retry_get_resource \<notin> set (decorators Delete_record_async)"
    using C5_retry_only_on_reads [where op = Delete_record_async, THEN conjunct1] by simp
  have rd: "operation_async ?rd ?id Get_record_async (call ?body) = ?rd (?id (call ?body))"
    using C5_retry_only_on_reads [where op = Get_record_async and rd = ?rd and ar = ?id
        and f = "call ?body", THEN conjunct2, THEN conjunct1]
    by simp
  have rd_run: "?rd (?id (call ?body)) \<lparr>world = 0, trace = []\<rparr> =
      (Inl (FileMakerError ''error 101''), \<lparr>world = 1, trace = [Sleep 1, InnerCall]\<rparr>)"
    by (simp add: call_def)
  have wr: "operation_async ?rd ?ar Delete_record_async (call ?body)
      \<lparr>world = 0, trace = []\<rparr> =
      (Inl (FileMakerError ''error 101''), \<lparr>world = 1, trace = [] @ [InnerCall]\<rparr>)"
    using C5_retry_only_on_reads [where op' = Delete_record_async and rd = ?rd
        and nf = "[''error 101'']" and ar = ?ar and body = ?body and m = "''error 101''"
        and w = 0 and w' = 1 and t = "[]", THEN conjunct2, THEN conjunct2] pass
    by simp
  from tab1 tab2 rd rd_run wr show ?thesis by simp
qed

text \<open>
  C6. For every read operation the retry decorator is written above the relogin decorator,
  so it is applied to the relogin-decorated function and every attempt it makes runs
  through the relogin wrapper anew. The function under the two decorators awaits
  \<^verbatim>\<open>_call_filemaker_async\<close>, which carries a relogin decorator of its own. An attempt in
  which the remote call meets an invalid session, logs in again and then fails with a
  not-found error passes both relogin layers with one relogin cycle and reaches the retry
  decorator as that not-found error. When the session has expired again by the next
  attempt, and so at every attempt, one logical read call performs one relogin cycle per
  retry attempt: \<open>max_attempts + 1\<close> of them. Both decorators are the ones modelled from the
  spec; \<open>raw\<close> is the body of \<^verbatim>\<open>_call_filemaker_async\<close> on the prepared payload.
\<close>

theorem C6_relogin_inside_every_retry_attempt:
  "(op \<in> {Get_record_async, Get_records_async, Find_async} \<longrightarrow>
      decorators op = [With_retry_get_resource, With_auto_relogin] \<and>
      operation_async rd ar op f = rd (ar f))
   \<and>
   (raw w = (Inl (FileMakerError m1), w1) \<and> m1 \<in> set session_invalid \<and>
    login (net w1) = (Inr tok, n') \<and>
    raw (w1\<lparr>token := Some tok, net := n'\<rparr>) = (Inl (FileMakerError m2), w2) \<and>
    m2 \<notin> set session_invalid \<longrightarrow>
    with_auto_relogin session_invalid (relogin login)
        (operation_body
           (operation_async rd' (with_auto_relogin session_invalid (relogin login))
              Call_filemaker_async (call raw))
           prepare_result)
        \<lparr>world = w, trace = t\<rparr> =
      (Inl (FileMakerError m2), \<lparr>world = w2, trace = t @ [InnerCall, Relogin, InnerCall]\<rparr>))
   \<and>
   (op \<in> {Get_record_async, Get_records_async, Find_async} \<and>
    retry_get_record_on_not_found cfg \<and>
    0 \<le> retry_get_record_on_not_found_attempts cfg \<and>
    0 \<le> retry_get_record_on_not_found_delay cfg \<and>
    sm \<in> set session_invalid \<and> nm \<in> set nf \<and> nm \<notin> set session_invalid \<and>
    raw c = (Inl (FileMakerError sm), c) \<and>
    login (net c) = (Inr tok, n1) \<and>
    raw (c\<lparr>token := Some tok, net := n1\<rparr>) = (Inl (FileMakerError nm), c) \<longrightarrow>
    operation_async (server_with_retry_get_resource cfg nf)
        (with_auto_relogin session_invalid (relogin login)) op
        (operation_body
           (operation_async rd' (with_auto_relogin session_invalid (relogin login))
              Call_filemaker_async (call raw))
           prepare_result)
        \<lparr>world = c, trace = t\<rparr> =
      (Inl (FileMakerError nm),
       \<lparr>world = c,
        trace = t @ concat (replicate (nat (retry_get_record_on_not_found_attempts cfg) + 1)
                  [InnerCall, Relogin, InnerCall,
                   Sleep (retry_get_record_on_not_found_delay cfg)])\<rparr>))"
proof (intro conjI impI)
  assume r: "op \<in> {Get_record_async, Get_records_async, Find_async}"
  then show "decorators op = [With_retry_get_resource, With_auto_relogin]"
    by auto
  from r show "operation_async rd ar op f = rd (ar f)"
    by (rule operation_async_read)
next
  assume "raw w = (Inl (FileMakerError m1), w1) \<and> m1 \<in> set session_invalid \<and>
    login (net w1) = (Inr tok, n') \<and>
    raw (w1\<lparr>token := Some tok, net := n'\<rparr>) = (Inl (FileMakerError m2), w2) \<and>
    m2 \<notin> set session_invalid"
  then show "with_auto_relogin session_invalid (relogin login)
        (operation_body
           (operation_async rd' (with_auto_relogin session_invalid (relogin login))
              Call_filemaker_async (call raw))
           prepare_result)
        \<lparr>world = w, trace = t\<rparr> =
      (Inl (FileMakerError m2), \<lparr>world = w2, trace = t @ [InnerCall, Relogin, InnerCall]\<rparr>)"
    by (intro one_attempt_through_relogin
          [where ?m1.0 = m1 and ?w1.0 = w1 and tok = tok and n' = n']) simp_all
next
  let ?f = "with_auto_relogin session_invalid (relogin login)
        (operation_body
           (operation_async rd' (with_auto_relogin session_invalid (relogin login))
              Call_filemaker_async (call raw))
           prepare_result)"
  assume a: "op \<in> {Get_record_async, Get_records_async, Find_async} \<and>
    retry_get_record_on_not_found cfg \<and>
    0 \<le> retry_get_record_on_not_found_attempts cfg \<and>
    0 \<le> retry_get_record_on_not_found_delay cfg \<and>
    sm \<in> set session_invalid \<and> nm \<in> set nf \<and> nm \<notin> set session_invalid \<and>
    raw c = (Inl (FileMakerError sm), c) \<and>
    login (net c) = (Inr tok, n1) \<and>
    raw (c\<lparr>token := Some tok, net := n1\<rparr>) = (Inl (FileMakerError nm), c)"
  then have d: "0 \<le> retry_get_record_on_not_found_delay cfg"
    and si: "sm \<in> set session_invalid" and nf: "nm \<in> set nf"
    and nsi: "nm \<notin> set session_invalid"
    and b1: "raw c = (Inl (FileMakerError sm), c)"
    and lg: "login (net c) = (Inr tok, n1)"
    and b2: "raw (c\<lparr>token := Some tok, net := n1\<rparr>) = (Inl (FileMakerError nm), c)"
    and r: "op \<in> {Get_record_async, Get_records_async, Find_async}"
    and en: "retry_get_record_on_not_found cfg"
    by simp_all
  have bound: "0 + int (nat (retry_get_record_on_not_found_attempts cfg) + 1) =
      retry_get_record_on_not_found_attempts cfg + 1"
    using a by simp
  have loop: "retry_loop cfg nf ?f 0 None \<lparr>world = c, trace = t\<rparr> =
    (Inl (FileMakerError nm),
     \<lparr>world = c,
      trace = t @ concat (replicate (nat (retry_get_record_on_not_found_attempts cfg) + 1)
                [InnerCall, Relogin, InnerCall,
                 Sleep (retry_get_record_on_not_found_delay cfg)])\<rparr>)"
    by (rule expiring_sessions_loop
          [where raw = raw and c = c and login = login and sm = sm and tok = tok
             and ?n1.0 = n1, OF d si nf nsi b1 lg b2 bound]) simp
  show "operation_async (server_with_retry_get_resource cfg nf)
        (with_auto_relogin session_invalid (relogin login)) op
        (operation_body
           (operation_async rd' (with_auto_relogin session_invalid (relogin login))
              Call_filemaker_async (call raw))
           prepare_result)
        \<lparr>world = c, trace = t\<rparr> =
      (Inl (FileMakerError nm),
       \<lparr>world = c,
        trace = t @ concat (replicate (nat (retry_get_record_on_not_found_attempts cfg) + 1)
                  [InnerCall, Relogin, InnerCall,
                   Sleep (retry_get_record_on_not_found_delay cfg)])\<rparr>)"
    unfolding operation_async_read [OF r] server_with_retry_get_resource_def
    using en loop by simp
qed

text \<open>
  \<^verbatim>\<open>get_record_async\<close> with \<open>max_attempts = 1\<close> over the body of
  \<^verbatim>\<open>_call_filemaker_async\<close>, against a remote side that ends the session after every
  answered request and answers a request without a live session with the session-invalid
  error. The client keeps its token and headers throughout. Two attempts, two relogin
  cycles.
\<close>

theorem C6_relogin_inside_every_retry_attempt_witness:
  "operation_async
     (server_with_retry_get_resource
        \<lparr>retry_get_record_on_not_found = True, retry_get_record_on_not_found_attempts = 1,
         retry_get_record_on_not_found_delay = 0\<rparr> [''error 101''])
     (with_auto_relogin [''error 952''] (relogin (\<lambda>alive::bool. (Inr ''tok'', True))))
     Get_record_async
     (operation_body
        (operation_async (\<lambda>f. f)
           (with_auto_relogin [''error 952''] (relogin (\<lambda>alive::bool. (Inr ''tok'', True))))
           Call_filemaker_async
           (call (call_filemaker_async_body
              (\<lambda>req alive.
                 (Inr (if alive \<and> req_headers req ''Authorization'' = Some ''tok''
                       then ''not found'' else ''expired''), False))
              (\<lambda>text. Inr text)
              (\<lambda>j. if j = ''not found'' then Some ''error 101''
                    else if j = ''expired'' then Some ''error 952'' else None)
              ''GET'' ''/layouts/people/records/1'' None None [])))
        (\<lambda>response. Inr response))
     \<lparr>world = \<lparr>url = ''https://fm'', token = Some ''tok'',
                headers = [''Authorization'' \<mapsto> ''tok''], verify_ssl = True, net = False\<rparr>,
      trace = []\<rparr>
   = (Inl (FileMakerError ''error 101''),
      \<lparr>world = \<lparr>url = ''https://fm'', token = Some ''tok'',
                 headers = [''Authorization'' \<mapsto> ''tok''], verify_ssl = True, net = False\<rparr>,
       trace = [InnerCall, Relogin, InnerCall, Sleep 0,
                InnerCall, Relogin, InnerCall, Sleep 0]\<rparr>)"
proof -
  let ?cfg = "\<lparr>retry_get_record_on_not_found = True, retry_get_record_on_not_found_attempts = 1,
      retry_get_record_on_not_found_delay = 0\<rparr>"
  let ?c = "\<lparr>url = ''https://fm'', token = Some ''tok'',
      headers = [''Authorization'' \<mapsto> ''tok''], verify_ssl = True, net = False\<rparr>"
  let ?login = "\<lambda>alive::bool. (Inr ''tok'' :: error + string, True)"
  let ?request = "\<lambda>(req :: string request) (alive::bool).
      (Inr (if alive \<and> req_headers req ''Authorization'' = Some ''tok''
            then ''not found'' else ''expired'') :: error + string, False)"
  let ?loads = "\<lambda>text::string. Inr text :: json_decode_error + string"
  let ?failure = "\<lambda>j::string. if j = ''not found'' then Some ''error 101''
      else if j = ''expired'' then Some ''error 952'' else None"
  let ?raw = "call_filemaker_async_body ?request ?loads ?failure
      ''GET'' ''/layouts/people/records/1'' None None []"
  let ?pr = "\<lambda>response :: string returned. Inr response :: error + string returned"
  let ?id = "\<lambda>f :: (bool client, string returned) action. f"
  let ?ar = "with_auto_relogin [''error 952''] (relogin ?login)
      :: (bool client, string returned) action \<Rightarrow> _"
  let ?rd = "server_with_retry_get_resource ?cfg [''error 101'']
      :: (bool client, string returned) action \<Rightarrow> _"
  let ?f = "operation_body (operation_async ?id ?ar Call_filemaker_async (call ?raw)) ?pr"
  have expired: "?raw ?c = (Inl (FileMakerError ''error 952''), ?c)"
    by (simp add: call_filemaker_async_body_def update_token_header_def request_of_def
        handle_response_data_def Let_def)
  have alive: "?raw (?c\<lparr>token := Some ''tok'', net := True\<rparr>) =
      (Inl (FileMakerError ''error 101''), ?c)"
    by (simp add: call_filemaker_async_body_def update_token_header_def request_of_def
        handle_response_data_def Let_def)
  note inst = C6_relogin_inside_every_retry_attempt
    [where op = Get_record_async and rd = ?rd and ar = ?ar and f = ?f
       and raw = ?raw and w = ?c and ?w1.0 = ?c and ?w2.0 = ?c
       and ?m1.0 = "''error 952''" and ?m2.0 = "''error 101''"
       and session_invalid = "[''error 952'']" and login = ?login and tok = "''tok''"
       and n' = True and rd' = ?id and prepare_result = ?pr and t = "[]"
       and cfg = ?cfg and nf = "[''error 101'']" and sm = "''error 952''"
       and nm = "''error 101''" and c = ?c and ?n1.0 = True]
  have struct: "operation_async ?rd ?ar Get_record_async ?f = ?rd (?ar ?f)"
    using inst [THEN conjunct1] by simp
  have attempt: "?ar ?f \<lparr>world = ?c, trace = []\<rparr> =
      (Inl (FileMakerError ''error 101''),
       \<lparr>world = ?c, trace = [] @ [InnerCall, Relogin, InnerCall]\<rparr>)"
    using inst [THEN conjunct2, THEN conjunct1] expired alive by simp
  have whole: "operation_async ?rd ?ar Get_record_async ?f \<lparr>world = ?c, trace = []\<rparr> =
      (Inl (FileMakerError ''error 101''),
       \<lparr>world = ?c,
        trace = [] @ concat (replicate (nat 1 + 1) [InnerCall, Relogin, InnerCall, Sleep 0])\<rparr>)"
    using inst [THEN conjunct2, THEN conjunct2] expired alive by simp
  have "concat (replicate (nat 1 + 1) [InnerCall, Relogin, InnerCall, Sleep 0]) =
      [InnerCall, Relogin, InnerCall, Sleep 0, InnerCall, Relogin, InnerCall, Sleep 0]"
    by (simp add: numeral_2_eq_2)
  with struct attempt whole show ?thesis by simp
qed

text \<open>
  C7. The relogin wrapper, on a session-invalid failure of the wrapped operation, performs
  one re-authentication cycle, which replaces the stored token, and invokes the operation
  once more; whatever that second invocation gives is the outcome. In particular a second
  session-invalid failure is raised after one relogin and one retry, with no third call.
  An error that is not session-invalid is raised at once, with no relogin.
\<close>

theorem C7_relogin_once_then_one_retry:
  "(body w = (Inl (FileMakerError m), w1) \<and> m \<in> set session_invalid \<and>
    login (net w1) = (Inr tok, n') \<and>
    body (w1\<lparr>token := Some tok, net := n'\<rparr>) = (r2, w2) \<longrightarrow>
    with_auto_relogin session_invalid (relogin login) (call body) \<lparr>world = w, trace = t\<rparr> =
      (r2, \<lparr>world = w2, trace = t @ [InnerCall, Relogin, InnerCall]\<rparr>))
   \<and>
   (body w = (Inl (FileMakerError m), w1) \<and> m \<in> set session_invalid \<and>
    login (net w1) = (Inr tok, n') \<and>
    body (w1\<lparr>token := Some tok, net := n'\<rparr>) = (Inl (FileMakerError m'), w2) \<and>
    m' \<in> set session_invalid \<longrightarrow>
    with_auto_relogin session_invalid (relogin login) (call body) \<lparr>world = w, trace = t\<rparr> =
      (Inl (FileMakerError m'), \<lparr>world = w2, trace = t @ [InnerCall, Relogin, InnerCall]\<rparr>))
   \<and>
   (body w = (Inl e, w1) \<and> (\<forall>m. e = FileMakerError m \<longrightarrow> m \<notin> set session_invalid) \<longrightarrow>
    with_auto_relogin session_invalid (relogin login) (call body) \<lparr>world = w, trace = t\<rparr> =
      (Inl e, \<lparr>world = w1, trace = t @ [InnerCall]\<rparr>))"
proof (intro conjI impI)
  assume "body w = (Inl (FileMakerError m), w1) \<and> m \<in> set session_invalid \<and>
    login (net w1) = (Inr tok, n') \<and>
    body (w1\<lparr>token := Some tok, net := n'\<rparr>) = (r2, w2)"
  then show "with_auto_relogin session_invalid (relogin login) (call body) \<lparr>world = w, trace = t\<rparr> =
      (r2, \<lparr>world = w2, trace = t @ [InnerCall, Relogin, InnerCall]\<rparr>)"
    by (intro relogin_wrapper_recovers [where m = m and ?w1.0 = w1 and tok = tok and n' = n']) simp_all
next
  assume "body w = (Inl (FileMakerError m), w1) \<and> m \<in> set session_invalid \<and>
    login (net w1) = (Inr tok, n') \<and>
    body (w1\<lparr>token := Some tok, net := n'\<rparr>) = (Inl (FileMakerError m'), w2) \<and>
    m' \<in> set session_invalid"
  then show "with_auto_relogin session_invalid (relogin login) (call body) \<lparr>world = w, trace = t\<rparr> =
      (Inl (FileMakerError m'), \<lparr>world = w2, trace = t @ [InnerCall, Relogin, InnerCall]\<rparr>)"
    by (intro relogin_wrapper_recovers [where m = m and ?w1.0 = w1 and tok = tok and n' = n']) simp_all
next
  assume a: "body w = (Inl e, w1) \<and> (\<forall>m. e = FileMakerError m \<longrightarrow> m \<notin> set session_invalid)"
  then have "call body \<lparr>world = w, trace = t\<rparr> = (Inl e, \<lparr>world = w1, trace = t @ [InnerCall]\<rparr>)"
    by (simp add: call_def)
  then show "with_auto_relogin session_invalid (relogin login) (call body) \<lparr>world = w, trace = t\<rparr> =
      (Inl e, \<lparr>world = w1, trace = t @ [InnerCall]\<rparr>)"
    using a by (intro relogin_wrapper_other_error) simp_all
qed

text \<open>
  A server that accepts only the new token (recovery), one that always answers with the
  session-invalid error (two calls, one relogin), and one that answers with another error.
\<close>

theorem C7_relogin_once_then_one_retry_witness:
  "with_auto_relogin [''error 952''] (relogin (\<lambda>n::nat. (Inr ''new'', n)))
     (call (\<lambda>c. (if token c = Some ''new'' then Inr (Value (7::nat))
                   else Inl (FileMakerError ''error 952''), c\<lparr>net := Suc (net c)\<rparr>)))
     \<lparr>world = \<lparr>url = ''https://fm'', token = Some ''old'', headers = Map.empty,
                verify_ssl = True, net = 0\<rparr>, trace = []\<rparr>
   = (Inr (Value 7),
      \<lparr>world = \<lparr>url = ''https://fm'', token = Some ''new'', headers = Map.empty,
                 verify_ssl = True, net = 2\<rparr>,
       trace = [InnerCall, Relogin, InnerCall]\<rparr>)
   \<and>
   with_auto_relogin [''error 952''] (relogin (\<lambda>n::nat. (Inr ''new'', n)))
     (call (\<lambda>c. (Inl (FileMakerError ''error 952'') :: error + nat returned,
                   c\<lparr>net := Suc (net c)\<rparr>)))
     \<lparr>world = \<lparr>url = ''https://fm'', token = Some ''old'', headers = Map.empty,
                verify_ssl = True, net = 0\<rparr>, trace = []\<rparr>
   = (Inl (FileMakerError ''error 952''),
      \<lparr>world = \<lparr>url = ''https://fm'', token = Some ''new'', headers = Map.empty,
                 verify_ssl = True, net = 2\<rparr>,
       trace = [InnerCall, Relogin, InnerCall]\<rparr>)
   \<and>
   with_auto_relogin [''error 952''] (relogin (\<lambda>n::nat. (Inr ''new'', n)))
     (call (\<lambda>c. (Inl (FileMakerError ''error 101'') :: error + nat returned,
                   c\<lparr>net := Suc (net c)\<rparr>)))
     \<lparr>world = \<lparr>url = ''https://fm'', token = Some ''old'', headers = Map.empty,
                verify_ssl = True, net = 0\<rparr>, trace = []\<rparr>
   = (Inl (FileMakerError ''error 101''),
      \<lparr>world = \<lparr>url = ''https://fm'', token = Some ''old'', headers = Map.empty,
                 verify_ssl = True, net = 1\<rparr>,
       trace = [InnerCall]\<rparr>)"
proof -
  let ?w = "\<lparr>url = ''https://fm'', token = Some ''old'', headers = Map.empty,
                verify_ssl = True, net = 0::nat\<rparr>"
  let ?login = "\<lambda>n::nat. (Inr ''new'' :: error + string, n)"
  let ?b1 = "\<lambda>c::nat client. (if token c = Some ''new'' then Inr (Value (7::nat))
                   else Inl (FileMakerError ''error 952''), c\<lparr>net := Suc (net c)\<rparr>)"
  let ?b2 = "\<lambda>c::nat client. (Inl (FileMakerError ''error 952'') :: error + nat returned,
                   c\<lparr>net := Suc (net c)\<rparr>)"
  let ?b3 = "\<lambda>c::nat client. (Inl (FileMakerError ''error 101'') :: error + nat returned,
                   c\<lparr>net := Suc (net c)\<rparr>)"
  have recovers: "with_auto_relogin [''error 952''] (relogin ?login) (call ?b1)
      \<lparr>world = ?w, trace = []\<rparr> =
      (Inr (Value 7), \<lparr>world = ?w\<lparr>token := Some ''new'', net := 2\<rparr>,
                       trace = [] @ [InnerCall, Relogin, InnerCall]\<rparr>)"
    using C7_relogin_once_then_one_retry
      [where body = ?b1 and w = ?w and m = "''error 952''" and ?w1.0 = "?w\<lparr>net := 1\<rparr>"
         and session_invalid = "[''error 952'']" and login = ?login and tok = "''new''"
         and n' = 1 and ?r2.0 = "Inr (Value 7)" and ?w2.0 = "?w\<lparr>token := Some ''new'', net := 2\<rparr>"
         and t = "[]", THEN conjunct1]
    by simp
  have twice: "with_auto_relogin [''error 952''] (relogin ?login) (call ?b2)
      \<lparr>world = ?w, trace = []\<rparr> =
      (Inl (FileMakerError ''error 952''), \<lparr>world = ?w\<lparr>token := Some ''new'', net := 2\<rparr>,
                       trace = [] @ [InnerCall, Relogin, InnerCall]\<rparr>)"
    using C7_relogin_once_then_one_retry
      [where body = ?b2 and w = ?w and m = "''error 952''" and ?w1.0 = "?w\<lparr>net := 1\<rparr>"
         and session_invalid = "[''error 952'']" and login = ?login and tok = "''new''"
         and n' = 1 and m' = "''error 952''" and ?w2.0 = "?w\<lparr>token := Some ''new'', net := 2\<rparr>"
         and t = "[]", THEN conjunct2, THEN conjunct1]
    by simp
  have other: "with_auto_relogin [''error 952''] (relogin ?login) (call ?b3)
      \<lparr>world = ?w, trace = []\<rparr> =
      (Inl (FileMakerError ''error 101''), \<lparr>world = ?w\<lparr>net := 1\<rparr>, trace = [] @ [InnerCall]\<rparr>)"
    using C7_relogin_once_then_one_retry
      [where body = ?b3 and w = ?w and e = "FileMakerError ''error 101''" and ?w1.0 = "?w\<lparr>net := 1\<rparr>"
         and session_invalid = "[''error 952'']" and login = ?login
         and t = "[]", THEN conjunct2, THEN conjunct2]
    by simp
  from recovers twice other show ?thesis by simp
qed

text \<open>
  C8. \<^verbatim>\<open>_call_filemaker_async\<close>, under its relogin decorator: when the transport returns a
  body that \<^verbatim>\<open>json.loads\<close> decodes to a response that indicates success, the result is
  the decoded JSON; when \<^verbatim>\<open>json.loads\<close> raises, the call raises \<^verbatim>\<open>BadJSON\<close> carrying that
  decode failure and the raw response text.
\<close>

theorem C8_remote_call_decodes_or_raises_BadJSON:
  "(request_async (request_of method (url self @ path) data params kwargs (update_token_header self))
       (net (update_token_header self)) = (Inr response_text, n') \<and>
    json_loads response_text = Inr response_data \<and> failure response_data = None \<longrightarrow>
    operation_async rd (with_auto_relogin session_invalid reauth) Call_filemaker_async
      (call (call_filemaker_async_body request_async json_loads failure method path data params
               kwargs))
      \<lparr>world = self, trace = t\<rparr> =
    (Inr (Value response_data),
     \<lparr>world = (update_token_header self)\<lparr>net := n'\<rparr>, trace = t @ [InnerCall]\<rparr>))
   \<and>
   (request_async (request_of method (url self @ path) data params kwargs (update_token_header self))
       (net (update_token_header self)) = (Inr response_text, n') \<and>
    json_loads response_text = Inl ex \<longrightarrow>
    operation_async rd (with_auto_relogin session_invalid reauth) Call_filemaker_async
      (call (call_filemaker_async_body request_async json_loads failure method path data params
               kwargs))
      \<lparr>world = self, trace = t\<rparr> =
    (Inl (BadJSON ex response_text),
     \<lparr>world = (update_token_header self)\<lparr>net := n'\<rparr>, trace = t @ [InnerCall]\<rparr>))"
  by (simp add: operation_async_def with_auto_relogin_def call_def call_filemaker_async_body_def
      handle_response_data_def Let_def)

text \<open>
  A transport that answers \<^verbatim>\<open>GET\<close> with a JSON body and anything else with an HTML page.
\<close>

theorem C8_remote_call_decodes_or_raises_BadJSON_witness:
  "operation_async (\<lambda>f. f)
     (with_auto_relogin [''error 952''] (relogin (\<lambda>n::nat. (Inr ''new'', n))))
     Call_filemaker_async
     (call (call_filemaker_async_body
        (\<lambda>req n. (Inr (if req_method req = ''GET'' then ''{}'' else ''<html>''), Suc n))
        (\<lambda>text. if text = ''{}'' then Inr [] else Inl (JSONDecodeError ''Expecting value'' 0))
        (\<lambda>j::(string \<times> string) list. None)
        ''GET'' ''/layouts/people/records/1'' None None []))
     \<lparr>world = \<lparr>url = ''https://fm'', token = Some ''tok'', headers = Map.empty,
                verify_ssl = True, net = 0\<rparr>, trace = []\<rparr>
   = (Inr (Value []),
      \<lparr>world = \<lparr>url = ''https://fm'', token = Some ''tok'',
                 headers = [''Authorization'' \<mapsto> ''tok''], verify_ssl = True, net = 1\<rparr>,
       trace = [InnerCall]\<rparr>)
   \<and>
   operation_async (\<lambda>f. f)
     (with_auto_relogin [''error 952''] (relogin (\<lambda>n::nat. (Inr ''new'', n))))
     Call_filemaker_async
     (call (call_filemaker_async_body
        (\<lambda>req n. (Inr (if req_method req = ''GET'' then ''{}'' else ''<html>''), Suc n))
        (\<lambda>text. if text = ''{}'' then Inr [] else Inl (JSONDecodeError ''Expecting value'' 0))
        (\<lambda>j::(string \<times> string) list. None)
        ''POST'' ''/layouts/people/records'' None None []))
     \<lparr>world = \<lparr>url = ''https://fm'', token = Some ''tok'', headers = Map.empty,
                verify_ssl = True, net = 0\<rparr>, trace = []\<rparr>
   = (Inl (BadJSON (JSONDecodeError ''Expecting value'' 0) ''<html>''),
      \<lparr>world = \<lparr>url = ''https://fm'', token = Some ''tok'',
                 headers = [''Authorization'' \<mapsto> ''tok''], verify_ssl = True, net = 1\<rparr>,
       trace = [InnerCall]\<rparr>)"
proof -
  let ?self = "\<lparr>url = ''https://fm'', token = Some ''tok'', headers = Map.empty,
                verify_ssl = True, net = 0::nat\<rparr>"
  let ?req = "\<lambda>(req :: (string \<times> string) list request) (n::nat).
      (Inr (if req_method req = ''GET'' then ''{}'' else ''<html>'') :: error + string, Suc n)"
  let ?loads = "\<lambda>text. if text = ''{}'' then Inr ([] :: (string \<times> string) list)
      else Inl (JSONDecodeError ''Expecting value'' 0)"
  let ?failure = "\<lambda>j::(string \<times> string) list. None :: string option"
  let ?rd = "\<lambda>f :: (nat client, (string \<times> string) list returned) action. f"
  let ?ar = "with_auto_relogin [''error 952''] (relogin (\<lambda>n::nat. (Inr ''new'', n)))
      :: (nat client, (string \<times> string) list returned) action \<Rightarrow> _"
  have good: "operation_async ?rd ?ar Call_filemaker_async
      (call (call_filemaker_async_body ?req ?loads ?failure ''GET'' ''/layouts/people/records/1''
               None None []))
      \<lparr>world = ?self, trace = []\<rparr> =
      (Inr (Value []), \<lparr>world = (update_token_header ?self)\<lparr>net := 1\<rparr>, trace = [] @ [InnerCall]\<rparr>)"
    using C8_remote_call_decodes_or_raises_BadJSON
      [of ?req "''GET''" ?self "''/layouts/people/records/1''" None None "[]" "''{}''" 1
          ?loads "[]" ?failure ?rd "[''error 952'']"
          "relogin (\<lambda>n::nat. (Inr ''new'', n))" "[]", THEN conjunct1]
    by (simp add: request_of_def update_token_header_def)
  have bad: "operation_async ?rd ?ar Call_filemaker_async
      (call (call_filemaker_async_body ?req ?loads ?failure ''POST'' ''/layouts/people/records''
               None None []))
      \<lparr>world = ?self, trace = []\<rparr> =
      (Inl (BadJSON (JSONDecodeError ''Expecting value'' 0) ''<html>''),
       \<lparr>world = (update_token_header ?self)\<lparr>net := 1\<rparr>, trace = [] @ [InnerCall]\<rparr>)"
    using C8_remote_call_decodes_or_raises_BadJSON
      [of ?req "''POST''" ?self "''/layouts/people/records''" None None "[]" "''<html>''" 1
          ?loads _ ?failure ?rd "[''error 952'']"
          "relogin (\<lambda>n::nat. (Inr ''new'', n))" "[]" "JSONDecodeError ''Expecting value'' 0",
        THEN conjunct2]
    by (simp add: request_of_def update_token_header_def)
  from good bad show ?thesis
    by (simp add: update_token_header_def)
qed

end
